theory Spec2Isabelle
  imports Main
begin

section \<open>Data of the server\<close>

text \<open>
  The program is \<^verbatim>\<open>server.py\<close>: an application object, two view functions registered
  under the rules \<^verbatim>\<open>/api\<close> and \<^verbatim>\<open>/\<close>, and a guarded call that starts the listener.

  A JSON value is what a Python dict of strings denotes: an object is a list of
  key/value pairs in insertion order.
\<close>

datatype json = JString string | JObject "(string \<times> json) list"

text \<open>
  The body of a response: text given by a view, the JSON document handed to
  \<^verbatim>\<open>jsonify\<close>, or the framework's own default page of an error status. The source fixes
  the JSON value; the layout of its serialisation (separators, final newline) is chosen by
  the framework's serialiser, so a JSON body is kept as the document.
\<close>

datatype content = Text string | JsonDoc json | DefaultPage

record response =
  status :: nat
  mimetype :: string
  allow :: "string list"
  body :: content

text \<open>
  A request as the framework presents it to the application: the method token
  (upper case), the path, and the parts that no view of this program reads.
\<close>

record request =
  req_method :: string
  req_path :: string
  query_string :: string
  req_headers :: "(string \<times> string) list"
  req_body :: string

text \<open>A view returns either a string or a ready response object.\<close>

datatype view_rv = RvStr string | RvResponse response

type_synonym view = "request \<Rightarrow> view_rv"

record url_rule =
  rule :: string
  endpoint :: string
  methods :: "string list"

record flask =
  import_name :: string
  url_map :: "url_rule list"
  view_functions :: "(string \<times> view) list"

text \<open>What a process gives a program besides its code, and what running the module leaves.\<close>

record process =
  environ :: "(string \<times> string) list"
  argv :: "string list"
  config_files :: "(string \<times> string) list"

record outcome =
  application :: flask
  listening :: "(string \<times> nat) option"

section \<open>The framework\<close>

text \<open>
  Modelled from the spec: the web framework (application object, route registration,
  URL dispatch, conversion of return values, default error responses) is an external
  library and not part of the repository. The spec gives its behaviour: dispatch "based
  on exact path match", status 200 with \<^verbatim>\<open>text/html\<close> for a string body and
  \<^verbatim>\<open>application/json\<close> for the JSON payload, "404 for unknown paths, 405 for unsupported
  methods on known paths". A rule registered without a method list answers GET, and the
  framework adds HEAD and OPTIONS to it.
\<close>

definition Flask :: "string \<Rightarrow> flask" where
  "Flask name = \<lparr>import_name = name, url_map = [], view_functions = []\<rparr>"

definition default_methods :: "string list" where
  "default_methods = [''GET'', ''HEAD'', ''OPTIONS'']"

definition route :: "string \<Rightarrow> string \<Rightarrow> view \<Rightarrow> flask \<Rightarrow> flask" where
  "route r name f app =
     app\<lparr>url_map := url_map app @ [\<lparr>rule = r, endpoint = name, methods = default_methods\<rparr>],
         view_functions := (name, f) # view_functions app\<rparr>"

definition jsonify :: "json \<Rightarrow> response" where
  "jsonify obj = \<lparr>status = 200, mimetype = ''application/json'', allow = [], body = JsonDoc obj\<rparr>"

definition make_response :: "view_rv \<Rightarrow> response" where
  "make_response rv =
     (case rv of
        RvStr s \<Rightarrow> \<lparr>status = 200, mimetype = ''text/html'', allow = [], body = Text s\<rparr>
      | RvResponse r \<Rightarrow> r)"

definition not_found :: response where
  "not_found = \<lparr>status = 404, mimetype = ''text/html'', allow = [], body = DefaultPage\<rparr>"

definition method_not_allowed :: "string list \<Rightarrow> response" where
  "method_not_allowed ms = \<lparr>status = 405, mimetype = ''text/html'', allow = ms, body = DefaultPage\<rparr>"

definition internal_server_error :: response where
  "internal_server_error = \<lparr>status = 500, mimetype = ''text/html'', allow = [], body = DefaultPage\<rparr>"

definition options_response :: "string list \<Rightarrow> response" where
  "options_response ms = \<lparr>status = 200, mimetype = ''text/html'', allow = ms, body = Text []\<rparr>"

definition matching_rules :: "flask \<Rightarrow> string \<Rightarrow> url_rule list" where
  "matching_rules app p = filter (\<lambda>u. rule u = p) (url_map app)"

definition allowed_methods :: "flask \<Rightarrow> string \<Rightarrow> string list" where
  "allowed_methods app p = concat (map methods (matching_rules app p))"

definition call_view :: "flask \<Rightarrow> url_rule \<Rightarrow> request \<Rightarrow> response" where
  "call_view app u req =
     (case map_of (view_functions app) (endpoint u) of
        None \<Rightarrow> internal_server_error
      | Some f \<Rightarrow>
          (let r = make_response (f req)
           in if req_method req = ''HEAD'' then r\<lparr>body := Text []\<rparr> else r))"

definition handle_request :: "flask \<Rightarrow> request \<Rightarrow> response" where
  "handle_request app req =
     (case matching_rules app (req_path req) of
        [] \<Rightarrow> not_found
      | u # us \<Rightarrow>
          (case find (\<lambda>v. req_method req \<in> set (methods v)) (u # us) of
             None \<Rightarrow> method_not_allowed (allowed_methods app (req_path req))
           | Some v \<Rightarrow>
               if req_method req = ''OPTIONS'' then options_response (methods v)
               else call_view app v req))"

text \<open>
  A Python view is not bound to be a function of the request: it may read and assign the
  module's global variables and every object reachable from them, so that one request
  changes the answer to the next. A view in this general form takes the request and the
  mutable state \<open>'s\<close> of the process and returns its value and the state it leaves.
\<close>

type_synonym 's stateful_view = "request \<Rightarrow> 's \<Rightarrow> view_rv \<times> 's"

text \<open>
  Modelled from the spec: dispatch as in \<open>handle_request\<close>, by the rules of the
  application, with the views in their general form and the state of the process passed
  through the view that is called. The framework's own answers leave the state alone.
\<close>

definition call_stateful_view ::
  "(string \<times> 's stateful_view) list \<Rightarrow> url_rule \<Rightarrow> request \<Rightarrow> 's \<Rightarrow> response \<times> 's" where
  "call_stateful_view views u req s =
     (case map_of views (endpoint u) of
        None \<Rightarrow> (internal_server_error, s)
      | Some f \<Rightarrow>
          (case f req s of
             (rv, s') \<Rightarrow>
               (let r = make_response rv
                in (if req_method req = ''HEAD'' then r\<lparr>body := Text []\<rparr> else r, s'))))"

definition handle_stateful_request ::
  "flask \<Rightarrow> (string \<times> 's stateful_view) list \<Rightarrow> request \<Rightarrow> 's \<Rightarrow> response \<times> 's" where
  "handle_stateful_request app views req s =
     (case matching_rules app (req_path req) of
        [] \<Rightarrow> (not_found, s)
      | u # us \<Rightarrow>
          (case find (\<lambda>v. req_method req \<in> set (methods v)) (u # us) of
             None \<Rightarrow> (method_not_allowed (allowed_methods app (req_path req)), s)
           | Some v \<Rightarrow>
               if req_method req = ''OPTIONS'' then (options_response (methods v), s)
               else call_stateful_view views v req s))"

text \<open>
  Modelled from the spec: the listener loop of the framework's built-in server, which
  answers the requests it receives one after the other with the same application object,
  each request starting from the state the one before it left. The result is the list of
  responses and the final state.
\<close>

fun serve :: "flask \<Rightarrow> (string \<times> 's stateful_view) list \<Rightarrow> 's \<Rightarrow> request list \<Rightarrow> response list \<times> 's" where
  "serve app views s [] = ([], s)"
| "serve app views s (req # reqs) =
     (case handle_stateful_request app views req s of
        (r, s') \<Rightarrow> (case serve app views s' reqs of (rs, s'') \<Rightarrow> (r # rs, s'')))"

text \<open>
  The bytes of a response body. The serialiser of JSON documents and the default pages of
  the error statuses are the framework's; they are parameters here.
\<close>

definition body_bytes :: "(json \<Rightarrow> string) \<Rightarrow> (nat \<Rightarrow> string) \<Rightarrow> response \<Rightarrow> string" where
  "body_bytes dumps page r =
     (case body r of Text t \<Rightarrow> t | JsonDoc j \<Rightarrow> dumps j | DefaultPage \<Rightarrow> page (status r))"

definition run :: "flask \<Rightarrow> string \<Rightarrow> nat \<Rightarrow> string \<times> nat" where
  "run app host port = (host, port)"

section \<open>The program\<close>

text \<open>
  \<^verbatim>\<open>def api(): return jsonify({"message": "Hello from Chinecherem Udegbunam"})\<close>

  \<^verbatim>\<open>def root(): return "<h1>Index served from container</h1><p>Try GET /api</p>"\<close>

  Neither view has a parameter; the request of the current context is passed explicitly
  and not read.
\<close>

definition api_payload :: json where
  "api_payload = JObject [(''message'', JString ''Hello from Chinecherem Udegbunam'')]"

definition api :: view where
  "api req = RvResponse (jsonify api_payload)"

definition root :: view where
  "root req = RvStr ''<h1>Index served from container</h1><p>Try GET /api</p>''"

text \<open>
  The two views in the general form: neither body names a global variable or assigns
  anything, so each returns its value and leaves the state of the process as it found it.
  The table gives them under their endpoint names, as the decorators register them.
\<close>

definition api_stateful :: "'s stateful_view" where
  "api_stateful req s = (api req, s)"

definition root_stateful :: "'s stateful_view" where
  "root_stateful req s = (root req, s)"

definition stateful_views :: "(string \<times> 's stateful_view) list" where
  "stateful_views = [(''root'', root_stateful), (''api'', api_stateful)]"

text \<open>
  The module body, run under the module name \<open>name\<close> (\<^verbatim>\<open>__main__\<close> when the file is the
  main program, the module's own name when it is imported) in a process \<open>proc\<close>:
  the application is created, the two decorators register the views in source order, and
  the listener is started only under the guard.
\<close>

definition server_py :: "string \<Rightarrow> process \<Rightarrow> outcome" where
  "server_py name proc =
     (let app = Flask name;
          app = route ''/api'' ''api'' api app;
          app = route ''/'' ''root'' root app
      in \<lparr>application = app,
          listening = (if name = ''__main__'' then Some (run app ''0.0.0.0'' 5000) else None)\<rparr>)"

definition object_keys :: "json \<Rightarrow> string list" where
  "object_keys j = (case j of JObject kvs \<Rightarrow> map fst kvs | JString s \<Rightarrow> [])"

section \<open>The two routes\<close>

lemma url_map_server_py:
  "url_map (application (server_py name proc)) =
     [\<lparr>rule = ''/api'', endpoint = ''api'', methods = default_methods\<rparr>,
      \<lparr>rule = ''/'', endpoint = ''root'', methods = default_methods\<rparr>]"
  by (simp add: server_py_def route_def Flask_def Let_def)

lemma view_functions_server_py:
  "view_functions (application (server_py name proc)) = [(''root'', root), (''api'', api)]"
  by (simp add: server_py_def route_def Flask_def Let_def)

lemma matching_rules_server_py:
  "matching_rules (application (server_py name proc)) p =
     (if p = ''/api'' then [\<lparr>rule = ''/api'', endpoint = ''api'', methods = default_methods\<rparr>]
      else if p = ''/'' then [\<lparr>rule = ''/'', endpoint = ''root'', methods = default_methods\<rparr>]
      else [])"
  by (auto simp add: matching_rules_def url_map_server_py)

lemma allowed_methods_server_py:
  "allowed_methods (application (server_py name proc)) p =
     (if p = ''/api'' \<or> p = ''/'' then default_methods else [])"
  by (simp add: allowed_methods_def matching_rules_server_py)

lemma member_default_methods:
  "m \<in> set default_methods \<longleftrightarrow> m = ''GET'' \<or> m = ''HEAD'' \<or> m = ''OPTIONS''"
  by (auto simp add: default_methods_def)

text \<open>The whole behaviour of the program's application, by path and method.\<close>

lemma handle_request_server_py:
  "handle_request (application (server_py name proc)) req =
     (if req_path req = ''/api'' then
        (if req_method req = ''GET'' then jsonify api_payload
         else if req_method req = ''HEAD'' then (jsonify api_payload)\<lparr>body := Text []\<rparr>
         else if req_method req = ''OPTIONS'' then options_response default_methods
         else method_not_allowed default_methods)
      else if req_path req = ''/'' then
        (if req_method req = ''GET'' then
           \<lparr>status = 200, mimetype = ''text/html'', allow = [],
            body = Text ''<h1>Index served from container</h1><p>Try GET /api</p>''\<rparr>
         else if req_method req = ''HEAD'' then
           \<lparr>status = 200, mimetype = ''text/html'', allow = [], body = Text []\<rparr>
         else if req_method req = ''OPTIONS'' then options_response default_methods
         else method_not_allowed default_methods)
      else not_found)"
  by (simp add: handle_request_def matching_rules_server_py allowed_methods_server_py
      member_default_methods call_view_def view_functions_server_py api_def root_def Let_def
      make_response_def)

text \<open>
  With the program's views, the state-passing dispatch gives the response of
  \<open>handle_request\<close> and returns the state unchanged, for every request.
\<close>

lemma handle_stateful_request_server_py:
  "handle_stateful_request (application (server_py name proc)) stateful_views req s
     = (handle_request (application (server_py name proc)) req, s)"
  by (simp add: handle_stateful_request_def handle_request_def matching_rules_server_py
      member_default_methods call_stateful_view_def call_view_def view_functions_server_py
      stateful_views_def api_stateful_def root_stateful_def Let_def)

text \<open>A request that leaves the state as it was is answered the same way every time.\<close>

lemma serve_replicate:
  "handle_stateful_request app views req s = (r, s)
   \<Longrightarrow> serve app views s (replicate n req) = (replicate n r, s)"
  by (induction n) simp_all

text \<open>Matching a path and a method looks at the rules only, never at the views.\<close>

lemma matching_rules_views:
  "matching_rules (app\<lparr>view_functions := vs\<rparr>) p = matching_rules app p"
  by (simp add: matching_rules_def)

lemma allowed_methods_views:
  "allowed_methods (app\<lparr>view_functions := vs\<rparr>) p = allowed_methods app p"
  by (simp add: allowed_methods_def matching_rules_views)

section \<open>Claims\<close>

text \<open>
  C1. Every GET request to the exact path \<^verbatim>\<open>/api\<close> is answered with status 200,
  content type \<^verbatim>\<open>application/json\<close> and the JSON document
  \<^verbatim>\<open>{"message": "Hello from Chinecherem Udegbunam"}\<close>, an object with exactly one key,
  \<^verbatim>\<open>message\<close>. This holds whatever the module name and the process are.
\<close>

theorem api_get_response:
  assumes "req_method req = ''GET''" and "req_path req = ''/api''"
  shows "status (handle_request (application (server_py name proc)) req) = 200
       \<and> mimetype (handle_request (application (server_py name proc)) req) = ''application/json''
       \<and> body (handle_request (application (server_py name proc)) req)
           = JsonDoc (JObject [(''message'', JString ''Hello from Chinecherem Udegbunam'')])
       \<and> object_keys (JObject [(''message'', JString ''Hello from Chinecherem Udegbunam'')])
           = [''message'']"
  using assms by (simp add: handle_request_server_py jsonify_def api_payload_def object_keys_def)

theorem api_get_response_witness:
  "status (handle_request (application (server_py ''__main__''
        \<lparr>environ = [], argv = [''server.py''], config_files = []\<rparr>))
      \<lparr>req_method = ''GET'', req_path = ''/api'', query_string = [], req_headers = [],
       req_body = []\<rparr>) = 200
   \<and> body (handle_request (application (server_py ''__main__''
        \<lparr>environ = [], argv = [''server.py''], config_files = []\<rparr>))
      \<lparr>req_method = ''GET'', req_path = ''/api'', query_string = [], req_headers = [],
       req_body = []\<rparr>)
     = JsonDoc (JObject [(''message'', JString ''Hello from Chinecherem Udegbunam'')])"
  using api_get_response [of "\<lparr>req_method = ''GET'', req_path = ''/api'', query_string = [],
      req_headers = [], req_body = []\<rparr>" "''__main__''"
      "\<lparr>environ = [], argv = [''server.py''], config_files = []\<rparr>"]
  by simp

text \<open>
  C2. Every GET request to the exact path \<^verbatim>\<open>/\<close> is answered with status 200, content
  type \<^verbatim>\<open>text/html\<close> and exactly the body
  \<^verbatim>\<open><h1>Index served from container</h1><p>Try GET /api</p>\<close>.
\<close>

theorem root_get_response:
  assumes "req_method req = ''GET''" and "req_path req = ''/''"
  shows "status (handle_request (application (server_py name proc)) req) = 200
       \<and> mimetype (handle_request (application (server_py name proc)) req) = ''text/html''
       \<and> body (handle_request (application (server_py name proc)) req)
           = Text ''<h1>Index served from container</h1><p>Try GET /api</p>''"
  using assms by (simp add: handle_request_server_py)

theorem root_get_response_witness:
  "status (handle_request (application (server_py ''__main__''
        \<lparr>environ = [], argv = [''server.py''], config_files = []\<rparr>))
      \<lparr>req_method = ''GET'', req_path = ''/'', query_string = ''x=1'',
       req_headers = [(''Accept'', ''*/*'')], req_body = []\<rparr>) = 200
   \<and> body (handle_request (application (server_py ''__main__''
        \<lparr>environ = [], argv = [''server.py''], config_files = []\<rparr>))
      \<lparr>req_method = ''GET'', req_path = ''/'', query_string = ''x=1'',
       req_headers = [(''Accept'', ''*/*'')], req_body = []\<rparr>)
     = Text ''<h1>Index served from container</h1><p>Try GET /api</p>''"
  using root_get_response [of "\<lparr>req_method = ''GET'', req_path = ''/'', query_string = ''x=1'',
      req_headers = [(''Accept'', ''*/*'')], req_body = []\<rparr>" "''__main__''"
      "\<lparr>environ = [], argv = [''server.py''], config_files = []\<rparr>"]
  by simp

text \<open>
  C3. A request whose path is neither \<^verbatim>\<open>/\<close> nor \<^verbatim>\<open>/api\<close> (a GET request in particular)
  is answered with status 404 by the framework's default not-found response. No code of the
  application takes part: the answer is the same whatever views are registered.
\<close>

theorem unknown_path_not_found:
  assumes "req_path req \<noteq> ''/''" and "req_path req \<noteq> ''/api''"
  shows "handle_request (application (server_py name proc)) req = not_found
       \<and> status (handle_request (application (server_py name proc)) req) = 404
       \<and> handle_request (application (server_py name proc)\<lparr>view_functions := vs\<rparr>) req
           = not_found"
  using assms
  by (simp add: handle_request_server_py handle_request_def matching_rules_views
      matching_rules_server_py not_found_def)

theorem unknown_path_not_found_witness:
  "status (handle_request (application (server_py ''__main__''
        \<lparr>environ = [], argv = [''server.py''], config_files = []\<rparr>))
      \<lparr>req_method = ''GET'', req_path = ''/unknown'', query_string = [], req_headers = [],
       req_body = []\<rparr>) = 404"
  using unknown_path_not_found [where req = "\<lparr>req_method = ''GET'', req_path = ''/unknown'',
      query_string = [], req_headers = [], req_body = []\<rparr>" and name = "''__main__''"
      and proc = "\<lparr>environ = [], argv = [''server.py''], config_files = []\<rparr>" and vs = "[]"]
  by (simp add: not_found_def)

text \<open>
  C4. A request to \<^verbatim>\<open>/\<close> or \<^verbatim>\<open>/api\<close> whose method is not among the methods of that
  route is answered with status 405 by the framework's default method-not-allowed response.
  No code of the application takes part: the answer is the same whatever views are
  registered.
\<close>

theorem unsupported_method_405:
  assumes "req_path req = ''/'' \<or> req_path req = ''/api''"
    and "req_method req \<notin> set (allowed_methods (application (server_py name proc)) (req_path req))"
  shows "handle_request (application (server_py name proc)) req
           = method_not_allowed (allowed_methods (application (server_py name proc)) (req_path req))
       \<and> status (handle_request (application (server_py name proc)) req) = 405
       \<and> handle_request (application (server_py name proc)\<lparr>view_functions := vs\<rparr>) req
           = handle_request (application (server_py name proc)) req"
proof -
  let ?A = "application (server_py name proc)"
  from assms(1) have am: "allowed_methods ?A (req_path req) = default_methods"
    by (auto simp add: allowed_methods_server_py)
  with assms(2) have m: "req_method req \<notin> set default_methods"
    by simp
  from m have h: "handle_request ?A req = method_not_allowed default_methods"
    using assms(1) by (auto simp add: handle_request_server_py member_default_methods)
  have "handle_request (?A\<lparr>view_functions := vs\<rparr>) req = method_not_allowed default_methods"
    using assms(1) m
    by (auto simp add: handle_request_def matching_rules_views allowed_methods_views
        matching_rules_server_py allowed_methods_server_py)
  with h am show ?thesis by (simp add: method_not_allowed_def)
qed

theorem unsupported_method_405_witness:
  "status (handle_request (application (server_py ''__main__''
        \<lparr>environ = [], argv = [''server.py''], config_files = []\<rparr>))
      \<lparr>req_method = ''POST'', req_path = ''/api'', query_string = [], req_headers = [],
       req_body = ''{}''\<rparr>) = 405"
  using unsupported_method_405 [where req = "\<lparr>req_method = ''POST'', req_path = ''/api'',
      query_string = [], req_headers = [], req_body = ''{}''\<rparr>" and name = "''__main__''"
      and proc = "\<lparr>environ = [], argv = [''server.py''], config_files = []\<rparr>" and vs = "[]"]
  by (simp add: allowed_methods_server_py default_methods_def method_not_allowed_def)

text \<open>
  C5. Both routes are idempotent. When the server, started in any state \<open>s\<close> of the
  process, answers a sequence of \<open>n\<close> identical GET requests to \<^verbatim>\<open>/\<close> or to \<^verbatim>\<open>/api\<close>,
  it gives \<open>n\<close> responses; each of them is identical to the first, in status, content type
  and body, and so are the bytes of the bodies whatever serialiser the framework uses; the
  state of the process after the sequence is the state before it; and every response is
  the fixed response of the route.
\<close>

theorem repeated_requests_identical:
  assumes "req_method req = ''GET''"
    and "req_path req = ''/'' \<or> req_path req = ''/api''"
  shows "length (fst (serve (application (server_py name proc)) stateful_views s
                  (replicate n req))) = n
       \<and> (\<forall>i<n. fst (serve (application (server_py name proc)) stateful_views s
                      (replicate n req)) ! i
                 = fst (serve (application (server_py name proc)) stateful_views s
                      (replicate n req)) ! 0)
       \<and> (\<forall>dumps page. \<forall>i<n.
             body_bytes dumps page
               (fst (serve (application (server_py name proc)) stateful_views s
                  (replicate n req)) ! i)
             = body_bytes dumps page
               (fst (serve (application (server_py name proc)) stateful_views s
                  (replicate n req)) ! 0))
       \<and> snd (serve (application (server_py name proc)) stateful_views s (replicate n req)) = s
       \<and> fst (serve (application (server_py name proc)) stateful_views s (replicate n req))
           = replicate n
               (if req_path req = ''/api''
                then \<lparr>status = 200, mimetype = ''application/json'', allow = [],
                      body = JsonDoc (JObject [(''message'',
                        JString ''Hello from Chinecherem Udegbunam'')])\<rparr>
                else \<lparr>status = 200, mimetype = ''text/html'', allow = [],
                      body = Text ''<h1>Index served from container</h1><p>Try GET /api</p>''\<rparr>)"
proof -
  let ?A = "application (server_py name proc)"
  let ?r = "if req_path req = ''/api''
      then \<lparr>status = 200, mimetype = ''application/json'', allow = [],
            body = JsonDoc (JObject [(''message'',
              JString ''Hello from Chinecherem Udegbunam'')])\<rparr>
      else \<lparr>status = 200, mimetype = ''text/html'', allow = [],
            body = Text ''<h1>Index served from container</h1><p>Try GET /api</p>''\<rparr>"
  from assms have "handle_request ?A req = ?r"
    by (auto simp add: handle_request_server_py jsonify_def api_payload_def)
  then have "handle_stateful_request ?A stateful_views req s = (?r, s)"
    by (simp only: handle_stateful_request_server_py)
  then have run: "serve ?A stateful_views s (replicate n req) = (replicate n ?r, s)"
    by (rule serve_replicate)
  show ?thesis
    by (simp only: run fst_conv snd_conv length_replicate nth_replicate) simp
qed

theorem repeated_requests_identical_witness:
  "fst (serve (application (server_py ''__main__''
        \<lparr>environ = [], argv = [''server.py''], config_files = []\<rparr>)) stateful_views (0::nat)
      (replicate 3 \<lparr>req_method = ''GET'', req_path = ''/api'', query_string = [],
         req_headers = [], req_body = []\<rparr>)) ! 2
   = fst (serve (application (server_py ''__main__''
        \<lparr>environ = [], argv = [''server.py''], config_files = []\<rparr>)) stateful_views (0::nat)
      (replicate 3 \<lparr>req_method = ''GET'', req_path = ''/api'', query_string = [],
         req_headers = [], req_body = []\<rparr>)) ! 0
   \<and> snd (serve (application (server_py ''__main__''
        \<lparr>environ = [], argv = [''server.py''], config_files = []\<rparr>)) stateful_views (0::nat)
      (replicate 3 \<lparr>req_method = ''GET'', req_path = ''/api'', query_string = [],
         req_headers = [], req_body = []\<rparr>)) = 0"
proof -
  let ?r = "\<lparr>req_method = ''GET'', req_path = ''/api'', query_string = [],
         req_headers = [], req_body = []\<rparr>"
  have a: "req_method ?r = ''GET''" by simp
  have b: "req_path ?r = ''/'' \<or> req_path ?r = ''/api''" by simp
  have c: "(2::nat) < 3" by simp
  from repeated_requests_identical [OF a b, of "''__main__''"
      "\<lparr>environ = [], argv = [''server.py''], config_files = []\<rparr>" "0::nat" 3]
  show ?thesis using c by blast
qed

text \<open>
  C6. The response depends on the method and the path only: two requests with the same
  method and path, whatever their query parameters, headers and bodies, get the same status,
  content type and body. This holds for both routes, and for every other request too.
\<close>

theorem response_depends_on_method_and_path_only:
  assumes "req_method r1 = req_method r2" and "req_path r1 = req_path r2"
  shows "status (handle_request (application (server_py name proc)) r1)
           = status (handle_request (application (server_py name proc)) r2)
       \<and> mimetype (handle_request (application (server_py name proc)) r1)
           = mimetype (handle_request (application (server_py name proc)) r2)
       \<and> body (handle_request (application (server_py name proc)) r1)
           = body (handle_request (application (server_py name proc)) r2)"
  using assms by (simp add: handle_request_server_py)

theorem response_depends_on_method_and_path_only_witness:
  "body (handle_request (application (server_py ''__main__''
        \<lparr>environ = [], argv = [''server.py''], config_files = []\<rparr>))
      \<lparr>req_method = ''GET'', req_path = ''/api'', query_string = [], req_headers = [],
       req_body = []\<rparr>)
   = body (handle_request (application (server_py ''__main__''
        \<lparr>environ = [], argv = [''server.py''], config_files = []\<rparr>))
      \<lparr>req_method = ''GET'', req_path = ''/api'', query_string = ''name=x'',
       req_headers = [(''Accept'', ''text/plain'')], req_body = ''abc''\<rparr>)"
  using response_depends_on_method_and_path_only [of
      "\<lparr>req_method = ''GET'', req_path = ''/api'', query_string = [], req_headers = [],
        req_body = []\<rparr>"
      "\<lparr>req_method = ''GET'', req_path = ''/api'', query_string = ''name=x'',
        req_headers = [(''Accept'', ''text/plain'')], req_body = ''abc''\<rparr>"
      "''__main__''" "\<lparr>environ = [], argv = [''server.py''], config_files = []\<rparr>"]
  by simp

text \<open>
  C7. Run as the main program, the server listens on host \<^verbatim>\<open>0.0.0.0\<close>, port 5000,
  whatever the environment variables, the command line and the configuration files of the
  process are.
\<close>

theorem main_binds_all_interfaces_5000:
  "listening (server_py ''__main__'' \<lparr>environ = env, argv = args, config_files = files\<rparr>)
     = Some (''0.0.0.0'', 5000)"
  by (simp add: server_py_def run_def Let_def)

text \<open>
  C8. HEAD and OPTIONS requests to \<^verbatim>\<open>/\<close> and \<^verbatim>\<open>/api\<close> are accepted: both routes allow
  exactly GET, HEAD and OPTIONS, a HEAD or OPTIONS request gets status 200, and the
  status is 405 exactly for the methods outside these three.
\<close>

theorem head_and_options_accepted:
  assumes "req_path req = ''/'' \<or> req_path req = ''/api''"
  shows "allowed_methods (application (server_py name proc)) (req_path req)
           = [''GET'', ''HEAD'', ''OPTIONS'']
       \<and> (req_method req = ''HEAD'' \<or> req_method req = ''OPTIONS''
            \<longrightarrow> status (handle_request (application (server_py name proc)) req) = 200)
       \<and> (status (handle_request (application (server_py name proc)) req) = 405
            \<longleftrightarrow> req_method req \<notin> {''GET'', ''HEAD'', ''OPTIONS''})"
  using assms
  by (auto simp add: handle_request_server_py allowed_methods_server_py default_methods_def
      jsonify_def options_response_def method_not_allowed_def)

theorem head_and_options_accepted_witness:
  "status (handle_request (application (server_py ''__main__''
        \<lparr>environ = [], argv = [''server.py''], config_files = []\<rparr>))
      \<lparr>req_method = ''HEAD'', req_path = ''/api'', query_string = [], req_headers = [],
       req_body = []\<rparr>) = 200"
  using head_and_options_accepted [of "\<lparr>req_method = ''HEAD'', req_path = ''/api'',
      query_string = [], req_headers = [], req_body = []\<rparr>" "''__main__''"
      "\<lparr>environ = [], argv = [''server.py''], config_files = []\<rparr>"]
  by simp

text \<open>
  C9. Path matching is exact about a trailing slash: a request to \<^verbatim>\<open>/api/\<close> (a GET
  request in particular) matches no rule, is not handed to the view of \<^verbatim>\<open>/api\<close>, and gets
  the framework's default not-found response, whose status is not 200 and whose body is not
  the JSON payload.
\<close>

theorem trailing_slash_not_served:
  assumes "req_path req = ''/api/''"
  shows "matching_rules (application (server_py name proc)) (req_path req) = []
       \<and> handle_request (application (server_py name proc)) req = not_found
       \<and> status (handle_request (application (server_py name proc)) req) \<noteq> 200
       \<and> body (handle_request (application (server_py name proc)) req) \<noteq> JsonDoc api_payload"
  using assms
  by (simp add: handle_request_server_py matching_rules_server_py not_found_def)

theorem trailing_slash_not_served_witness:
  "handle_request (application (server_py ''__main__''
        \<lparr>environ = [], argv = [''server.py''], config_files = []\<rparr>))
      \<lparr>req_method = ''GET'', req_path = ''/api/'', query_string = [], req_headers = [],
       req_body = []\<rparr> = not_found"
  using trailing_slash_not_served [of "\<lparr>req_method = ''GET'', req_path = ''/api/'',
      query_string = [], req_headers = [], req_body = []\<rparr>" "''__main__''"
      "\<lparr>environ = [], argv = [''server.py''], config_files = []\<rparr>"]
  by simp

text \<open>
  C10. Importing the module does not start the listener: under any module name other than
  \<^verbatim>\<open>__main__\<close> nothing listens and the application has exactly the two rules
  \<^verbatim>\<open>/api\<close> and \<^verbatim>\<open>/\<close>; the listener on \<^verbatim>\<open>0.0.0.0\<close>, port 5000, exists exactly when the
  name is \<^verbatim>\<open>__main__\<close>.
\<close>

theorem import_does_not_listen:
  assumes "name \<noteq> ''__main__''"
  shows "listening (server_py name proc) = None
       \<and> map (\<lambda>u. (rule u, endpoint u)) (url_map (application (server_py name proc)))
           = [(''/api'', ''api''), (''/'', ''root'')]
       \<and> (\<forall>nm. listening (server_py nm proc) = Some (''0.0.0.0'', 5000) \<longleftrightarrow> nm = ''__main__'')"
  using assms
  by (simp add: url_map_server_py) (simp add: server_py_def run_def Let_def)

theorem import_does_not_listen_witness:
  "listening (server_py ''server'' \<lparr>environ = [], argv = [''python3''], config_files = []\<rparr>)
     = None"
  using import_does_not_listen [of "''server''"
      "\<lparr>environ = [], argv = [''python3''], config_files = []\<rparr>"]
  by simp

end
